theory Spec2Isabelle
  imports Complex_Main "HOL-Library.Word" "HOL-Library.Log_Nat"
begin

section \<open>JavaScript numbers\<close>

text \<open>
  A JavaScript number is an IEEE-754 double. A finite double is kept as a pair of
  integers \<open>Finite m e\<close> that stands for \<open>m * 2 ^ e\<close>, in lowest terms: \<open>m\<close> is odd,
  or the number is zero and the pair is \<open>Finite 0 0\<close>. The two zeros of the format are
  not told apart, and there is one NaN. Every arithmetic operation computes the exact
  result and rounds it to the nearest double, ties to the even mantissa, with gradual
  underflow and with overflow to an infinity.
\<close>

datatype double = Finite int int | PosInf | NegInf | NaN

function normal :: "int \<Rightarrow> int \<Rightarrow> double" where
  "normal m e =
     (if m = 0 then Finite 0 0
      else if even m then normal (m div 2) (e + 1)
      else Finite m e)"
  by pat_completeness auto
termination
  by (relation "measure (\<lambda>(m, e). nat \<bar>m\<bar>)") auto

definition signed_inf :: "bool \<Rightarrow> double" where
  "signed_inf negative = (if negative then NegInf else PosInf)"

text \<open>Integer division that rounds to the nearest quotient, a tie to the even one.\<close>

definition round_half_even :: "int \<Rightarrow> int \<Rightarrow> int" where
  "round_half_even a d =
     (let q = a div d;
          r = a mod d
      in if 2 * r > d \<or> (2 * r = d \<and> odd q) then q + 1 else q)"

text \<open>
  Rounding of the exact value \<open>m * 2 ^ e\<close> to a binary format with \<open>p\<close> bits of
  mantissa, least exponent \<open>emin\<close> of the last mantissa bit, and values below
  \<open>2 ^ emax\<close>. The result has at most \<open>p\<close> mantissa bits on the grid of the exponent
  \<open>g\<close>; a rounded value that reaches \<open>2 ^ emax\<close> becomes an infinity.
\<close>

definition round_to :: "int \<Rightarrow> int \<Rightarrow> int \<Rightarrow> int \<Rightarrow> int \<Rightarrow> double" where
  "round_to p emin emax m e =
     (if m = 0 then Finite 0 0
      else
        let k = bitlen \<bar>m\<bar>;
            g = max (k + e - p) emin
        in if g \<le> e then
             (if k + e > emax then signed_inf (m < 0) else normal m e)
           else
             let q = round_half_even \<bar>m\<bar> (2 ^ nat (g - e))
             in if bitlen q + g > emax then signed_inf (m < 0)
                else normal (sgn m * q) g)"

definition round_double :: "int \<Rightarrow> int \<Rightarrow> double" where
  "round_double m e = round_to 53 (- 1074) 1024 m e"

definition round_float32 :: "int \<Rightarrow> int \<Rightarrow> double" where
  "round_float32 m e = round_to 24 (- 149) 128 m e"

text \<open>The double written as an integer literal in the source.\<close>

definition dbl :: "int \<Rightarrow> double" where
  "dbl i = round_double i 0"

fun dneg :: "double \<Rightarrow> double" where
  "dneg (Finite m e) = Finite (- m) e"
| "dneg PosInf = NegInf"
| "dneg NegInf = PosInf"
| "dneg NaN = NaN"

text \<open>The operators \<open>+\<close>, \<open>-\<close> and \<open>*\<close> of the source on numbers.\<close>

fun dadd :: "double \<Rightarrow> double \<Rightarrow> double" where
  "dadd NaN y = NaN"
| "dadd x NaN = NaN"
| "dadd PosInf NegInf = NaN"
| "dadd NegInf PosInf = NaN"
| "dadd PosInf y = PosInf"
| "dadd NegInf y = NegInf"
| "dadd x PosInf = PosInf"
| "dadd x NegInf = NegInf"
| "dadd (Finite m1 e1) (Finite m2 e2) =
     round_double (m1 * 2 ^ nat (e1 - min e1 e2) + m2 * 2 ^ nat (e2 - min e1 e2)) (min e1 e2)"

definition dsub :: "double \<Rightarrow> double \<Rightarrow> double" where
  "dsub x y = dadd x (dneg y)"

fun dsign :: "double \<Rightarrow> int" where
  "dsign (Finite m e) = sgn m"
| "dsign PosInf = 1"
| "dsign NegInf = - 1"
| "dsign NaN = 0"

fun dmul :: "double \<Rightarrow> double \<Rightarrow> double" where
  "dmul NaN y = NaN"
| "dmul x NaN = NaN"
| "dmul (Finite m1 e1) (Finite m2 e2) = round_double (m1 * m2) (e1 + e2)"
| "dmul x y =
     (if dsign x * dsign y = 0 then NaN else signed_inf (dsign x * dsign y < 0))"

text \<open>
  The conversion of a number stored into a \<open>Float32Array\<close>: rounding to single
  precision.
\<close>

fun to_float32 :: "double \<Rightarrow> double" where
  "to_float32 (Finite m e) = round_float32 m e"
| "to_float32 x = x"

fun is_finite :: "double \<Rightarrow> bool" where
  "is_finite (Finite m e) = True"
| "is_finite x = False"




section \<open>The rendering device as assignment0.js drives it\<close>

text \<open>
  The program talks to a WebGL2 rendering context \<open>gl\<close>. The context is modelled as a
  recording device: every method the source calls appends one entry to \<open>calls\<close>, in
  call order, and updates the part of the device state the method is specified to
  change (the current bindings, the contents of the bound buffer, the object counter).
  Vertex data and colours are doubles; sizes, counts, indices and locations, which the
  source only passes on, are integers.

  \<open>createBuffer\<close> and \<open>createVertexArray\<close> hand out a new object, numbered by
  \<open>next_object\<close>, on every call. The binding state is kept as three slots: the
  current vertex array object and the buffers bound to \<open>ARRAY_BUFFER\<close> and to
  \<open>ELEMENT_ARRAY_BUFFER\<close>. The attribute and uniform locations of a program are
  tables of the device, which no call of the source changes. \<open>DeleteBuffer\<close> and
  \<open>DeleteVertexArray\<close> belong to the vocabulary of the device, so that the release of
  an object can be spoken of; the source calls neither.
\<close>

datatype buffer_target = ARRAY_BUFFER | ELEMENT_ARRAY_BUFFER

datatype gl_mode = TRIANGLES | POINTS

datatype gl_type = FLOAT | UNSIGNED_SHORT

datatype buffer_usage = STATIC_DRAW

datatype clear_mask = COLOR_BUFFER_BIT

type_synonym rgb = "double \<times> double \<times> double"

text \<open>
  The two typed arrays the source builds before an upload. \<open>new Float32Array(xs)\<close>
  rounds every element to single precision.
\<close>

datatype typed_array = Float32Array "double list" | Uint16Array "16 word list"

definition new_Float32Array :: "double list \<Rightarrow> typed_array" where
  "new_Float32Array xs = Float32Array (map to_float32 xs)"

text \<open>
  \<open>new Uint16Array(xs)\<close> converts every element with ToUint16: an integer is reduced
  modulo \<open>2 ^ 16\<close>, which is what \<open>word_of_int\<close> does.
\<close>

definition new_Uint16Array :: "int list \<Rightarrow> typed_array" where
  "new_Uint16Array xs = Uint16Array (map word_of_int xs)"

datatype gl_call =
    CreateBuffer nat
  | CreateVertexArray nat
  | DeleteBuffer "nat option"
  | DeleteVertexArray "nat option"
  | BindBuffer buffer_target "nat option"
  | BindVertexArray "nat option"
  | BufferData buffer_target typed_array buffer_usage
  | GetAttribLocation nat string
  | EnableVertexAttribArray int
  | VertexAttribPointer int int gl_type bool int int
  | GetUniformLocation nat string
  | Uniform3fv "nat option" rgb
  | DrawElements gl_mode int gl_type int
  | Viewport int int int int
  | ClearColor double double double double
  | Clear clear_mask

record gl_state =
  calls :: "gl_call list"
  next_object :: nat
  vertex_array_binding :: "nat option"
  array_buffer_binding :: "nat option"
  element_array_buffer_binding :: "nat option"
  buffer_contents :: "nat \<Rightarrow> typed_array option"
  attrib_locations :: "nat \<Rightarrow> string \<Rightarrow> int"
  uniform_locations :: "nat \<Rightarrow> string \<Rightarrow> nat option"

definition gl_createBuffer :: "gl_state \<Rightarrow> nat option \<times> gl_state" where
  "gl_createBuffer gl =
     (Some (next_object gl),
      gl\<lparr>calls := calls gl @ [CreateBuffer (next_object gl)],
         next_object := Suc (next_object gl)\<rparr>)"

definition gl_createVertexArray :: "gl_state \<Rightarrow> nat option \<times> gl_state" where
  "gl_createVertexArray gl =
     (Some (next_object gl),
      gl\<lparr>calls := calls gl @ [CreateVertexArray (next_object gl)],
         next_object := Suc (next_object gl)\<rparr>)"

definition gl_bindBuffer :: "gl_state \<Rightarrow> buffer_target \<Rightarrow> nat option \<Rightarrow> gl_state" where
  "gl_bindBuffer gl target buffer =
     (case target of
        ARRAY_BUFFER \<Rightarrow>
          gl\<lparr>calls := calls gl @ [BindBuffer target buffer],
             array_buffer_binding := buffer\<rparr>
      | ELEMENT_ARRAY_BUFFER \<Rightarrow>
          gl\<lparr>calls := calls gl @ [BindBuffer target buffer],
             element_array_buffer_binding := buffer\<rparr>)"

definition gl_bindVertexArray :: "gl_state \<Rightarrow> nat option \<Rightarrow> gl_state" where
  "gl_bindVertexArray gl vao =
     gl\<lparr>calls := calls gl @ [BindVertexArray vao], vertex_array_binding := vao\<rparr>"

definition bound_buffer :: "gl_state \<Rightarrow> buffer_target \<Rightarrow> nat option" where
  "bound_buffer gl target =
     (case target of
        ARRAY_BUFFER \<Rightarrow> array_buffer_binding gl
      | ELEMENT_ARRAY_BUFFER \<Rightarrow> element_array_buffer_binding gl)"

text \<open>\<open>bufferData\<close> fills the buffer bound to the target; with nothing bound it stores nothing.\<close>

definition gl_bufferData ::
  "gl_state \<Rightarrow> buffer_target \<Rightarrow> typed_array \<Rightarrow> buffer_usage \<Rightarrow> gl_state" where
  "gl_bufferData gl target srcData usage =
     (case bound_buffer gl target of
        None \<Rightarrow> gl\<lparr>calls := calls gl @ [BufferData target srcData usage]\<rparr>
      | Some b \<Rightarrow>
          gl\<lparr>calls := calls gl @ [BufferData target srcData usage],
             buffer_contents := (buffer_contents gl)(b := Some srcData)\<rparr>)"

definition gl_getAttribLocation :: "gl_state \<Rightarrow> nat \<Rightarrow> string \<Rightarrow> int \<times> gl_state" where
  "gl_getAttribLocation gl prog name =
     (attrib_locations gl prog name,
      gl\<lparr>calls := calls gl @ [GetAttribLocation prog name]\<rparr>)"

definition gl_enableVertexAttribArray :: "gl_state \<Rightarrow> int \<Rightarrow> gl_state" where
  "gl_enableVertexAttribArray gl index =
     gl\<lparr>calls := calls gl @ [EnableVertexAttribArray index]\<rparr>"

definition gl_vertexAttribPointer ::
  "gl_state \<Rightarrow> int \<Rightarrow> int \<Rightarrow> gl_type \<Rightarrow> bool \<Rightarrow> int \<Rightarrow> int \<Rightarrow> gl_state" where
  "gl_vertexAttribPointer gl index sz ty normalized stride offset =
     gl\<lparr>calls := calls gl @ [VertexAttribPointer index sz ty normalized stride offset]\<rparr>"

definition gl_getUniformLocation ::
  "gl_state \<Rightarrow> nat \<Rightarrow> string \<Rightarrow> nat option \<times> gl_state" where
  "gl_getUniformLocation gl prog name =
     (uniform_locations gl prog name,
      gl\<lparr>calls := calls gl @ [GetUniformLocation prog name]\<rparr>)"

definition gl_uniform3fv :: "gl_state \<Rightarrow> nat option \<Rightarrow> rgb \<Rightarrow> gl_state" where
  "gl_uniform3fv gl location v = gl\<lparr>calls := calls gl @ [Uniform3fv location v]\<rparr>"

definition gl_drawElements :: "gl_state \<Rightarrow> gl_mode \<Rightarrow> int \<Rightarrow> gl_type \<Rightarrow> int \<Rightarrow> gl_state" where
  "gl_drawElements gl mode count ty offset =
     gl\<lparr>calls := calls gl @ [DrawElements mode count ty offset]\<rparr>"

definition gl_viewport :: "gl_state \<Rightarrow> int \<Rightarrow> int \<Rightarrow> int \<Rightarrow> int \<Rightarrow> gl_state" where
  "gl_viewport gl x y width height = gl\<lparr>calls := calls gl @ [Viewport x y width height]\<rparr>"

definition gl_clearColor ::
  "gl_state \<Rightarrow> double \<Rightarrow> double \<Rightarrow> double \<Rightarrow> double \<Rightarrow> gl_state" where
  "gl_clearColor gl r g b a = gl\<lparr>calls := calls gl @ [ClearColor r g b a]\<rparr>"

definition gl_clear :: "gl_state \<Rightarrow> clear_mask \<Rightarrow> gl_state" where
  "gl_clear gl bits = gl\<lparr>calls := calls gl @ [Clear bits]\<rparr>"

section \<open>What the source takes from outside\<close>

text \<open>
  \<open>hex2rgb\<close> and \<open>deg2rad\<close> are imported from js/utils/utils.js, which is not part of
  the sources at hand, and \<open>Math.cos\<close> and \<open>Math.sin\<close> are approximated by the
  JavaScript engine as it sees fit. All four are parameters of the model, gathered in
  one record that every function calling one of them receives: \<open>hex2rgb\<close> takes the
  hexadecimal colour string to a triple of colour components, the other three take a
  number to a number.
\<close>

record js_env =
  hex2rgb :: "string \<Rightarrow> rgb"
  deg2rad :: "double \<Rightarrow> double"
  Math_cos :: "double \<Rightarrow> double"
  Math_sin :: "double \<Rightarrow> double"

section \<open>class Shape\<close>

record Shader =
  program :: nat

record Shape =
  shader :: Shader
  vertices :: "double list"
  vertices_buffer :: "nat option"
  indices :: "int list"
  index_buffer :: "nat option"
  color :: rgb
  draw_mode :: gl_mode
  num_components :: int
  num_elements :: int
  vertex_array_object :: "nat option"

text \<open>
  The object \<open>this\<close> before the constructor body has assigned anything. No field is
  read before the constructor assigns it, so the values here are never observed.
\<close>

definition blank_Shape :: Shape where
  "blank_Shape =
     \<lparr>shader = \<lparr>program = 0\<rparr>, vertices = [], vertices_buffer = None, indices = [],
      index_buffer = None, color = (dbl 0, dbl 0, dbl 0), draw_mode = TRIANGLES, num_components = 0,
      num_elements = 0, vertex_array_object = None\<rparr>"

definition createVBO :: "Shape \<Rightarrow> gl_state \<Rightarrow> Shape \<times> gl_state" where
  "createVBO this gl =
     (let (b, gl) = gl_createBuffer gl;
          this = this\<lparr>vertices_buffer := b\<rparr>;
          gl = gl_bindBuffer gl ARRAY_BUFFER (vertices_buffer this);
          gl = gl_bufferData gl ARRAY_BUFFER (new_Float32Array (vertices this)) STATIC_DRAW;
          gl = gl_bindBuffer gl ARRAY_BUFFER None
      in (this, gl))"

definition createIBO :: "Shape \<Rightarrow> gl_state \<Rightarrow> Shape \<times> gl_state" where
  "createIBO this gl =
     (let (b, gl) = gl_createBuffer gl;
          this = this\<lparr>index_buffer := b\<rparr>;
          gl = gl_bindBuffer gl ELEMENT_ARRAY_BUFFER (index_buffer this);
          gl = gl_bufferData gl ELEMENT_ARRAY_BUFFER (new_Uint16Array (indices this)) STATIC_DRAW;
          gl = gl_bindBuffer gl ELEMENT_ARRAY_BUFFER None
      in (this, gl))"

definition createVAO :: "Shape \<Rightarrow> gl_state \<Rightarrow> Shader \<Rightarrow> Shape \<times> gl_state" where
  "createVAO this gl sh =
     (let (v, gl) = gl_createVertexArray gl;
          this = this\<lparr>vertex_array_object := v\<rparr>;
          gl = gl_bindVertexArray gl (vertex_array_object this);
          (positionAttributeLocation, gl) = gl_getAttribLocation gl (program sh) ''a_position'';
          gl = gl_enableVertexAttribArray gl positionAttributeLocation;
          gl = gl_bindBuffer gl ARRAY_BUFFER (vertices_buffer this);
          gl = gl_vertexAttribPointer gl positionAttributeLocation (num_components this)
                 FLOAT False 0 0;
          gl = gl_bindBuffer gl ARRAY_BUFFER None;
          gl = gl_bindVertexArray gl None
      in (this, gl))"

definition Shape_constructor ::
  "gl_state \<Rightarrow> Shader \<Rightarrow> double list \<Rightarrow> int list \<Rightarrow> rgb \<Rightarrow> gl_mode \<Rightarrow> int
     \<Rightarrow> Shape \<times> gl_state" where
  "Shape_constructor gl sh vs is c mode n =
     (let this = blank_Shape\<lparr>shader := sh\<rparr>;
          this = this\<lparr>vertices := vs, vertices_buffer := None\<rparr>;
          (this, gl) = createVBO this gl;
          this = this\<lparr>indices := is, index_buffer := None\<rparr>;
          (this, gl) = createIBO this gl;
          this = this\<lparr>color := c\<rparr>;
          this = this\<lparr>draw_mode := mode\<rparr>;
          this = this\<lparr>num_components := 2, num_elements := n\<rparr>;
          this = this\<lparr>vertex_array_object := None\<rparr>;
          (this, gl) = createVAO this gl sh
      in (this, gl))"

definition Shape_render :: "Shape \<Rightarrow> gl_state \<Rightarrow> gl_state" where
  "Shape_render this gl =
     (let gl = gl_bindVertexArray gl (vertex_array_object this);
          gl = gl_bindBuffer gl ELEMENT_ARRAY_BUFFER (index_buffer this);
          (colorUniformLocation, gl) = gl_getUniformLocation gl (program (shader this)) ''u_color'';
          gl = gl_uniform3fv gl colorUniformLocation (color this);
          gl = gl_drawElements gl (draw_mode this) (num_elements this) UNSIGNED_SHORT 0;
          gl = gl_bindBuffer gl ELEMENT_ARRAY_BUFFER None;
          gl = gl_bindVertexArray gl None
      in gl)"

section \<open>class Triangle\<close>

definition Triangle_vertices :: "js_env \<Rightarrow> double \<times> double \<Rightarrow> double \<Rightarrow> double list" where
  "Triangle_vertices env position sideLength =
     (let cosangle = Math_cos env (deg2rad env (dbl 30));
          sinangle = Math_sin env (deg2rad env (dbl 30))
      in [fst position, dsub (snd position) sideLength,
          dadd (fst position) (dmul sideLength cosangle),
          dadd (snd position) (dmul sideLength sinangle),
          dsub (fst position) (dmul sideLength cosangle),
          dadd (snd position) (dmul sideLength sinangle)])"

text \<open>The two locals of the constructor, the cosine and the sine of 30 degrees.\<close>

definition cosangle :: "js_env \<Rightarrow> double" where
  "cosangle env = Math_cos env (deg2rad env (dbl 30))"

definition sinangle :: "js_env \<Rightarrow> double" where
  "sinangle env = Math_sin env (deg2rad env (dbl 30))"

definition Triangle_indices :: "int list" where
  "Triangle_indices = [0, 1, 2]"

definition Triangle_constructor ::
  "js_env \<Rightarrow> gl_state \<Rightarrow> Shader \<Rightarrow> double \<times> double \<Rightarrow> rgb \<Rightarrow> double
     \<Rightarrow> Shape \<times> gl_state" where
  "Triangle_constructor env gl sh position c sideLength =
     Shape_constructor gl sh (Triangle_vertices env position sideLength) Triangle_indices c
       TRIANGLES (int (length Triangle_indices))"

section \<open>class WebGlApp\<close>

text \<open>
  \<open>initGl\<close> fetches the canvas of the hosting document and asks it for a context; it
  touches neither the scene nor a device it is given and lies outside this model.
\<close>

record WebGlApp =
  shapes :: "Shape list"

definition WebGlApp_constructor :: WebGlApp where
  "WebGlApp_constructor = \<lparr>shapes = []\<rparr>"

definition setViewport :: "gl_state \<Rightarrow> int \<Rightarrow> int \<Rightarrow> gl_state" where
  "setViewport gl width height = gl_viewport gl 0 0 width height"

definition clearCanvas :: "js_env \<Rightarrow> gl_state \<Rightarrow> gl_state" where
  "clearCanvas env gl =
     (let (r, g, b) = hex2rgb env ''#022851'';
          gl = gl_clearColor gl r g b (dbl 1)
      in gl_clear gl COLOR_BUFFER_BIT)"

definition addTriangle ::
  "js_env \<Rightarrow> WebGlApp \<Rightarrow> gl_state \<Rightarrow> Shader \<Rightarrow> double \<times> double \<Rightarrow> double
     \<Rightarrow> WebGlApp \<times> gl_state" where
  "addTriangle env this gl sh position sideLength =
     (let c = hex2rgb env ''#FFBF00'';
          (triangle, gl) = Triangle_constructor env gl sh position c sideLength
      in (this\<lparr>shapes := shapes this @ [triangle]\<rparr>, gl))"

definition clearShapes :: "WebGlApp \<Rightarrow> WebGlApp" where
  "clearShapes this = this\<lparr>shapes := []\<rparr>"

fun render_shapes :: "Shape list \<Rightarrow> gl_state \<Rightarrow> gl_state" where
  "render_shapes [] gl = gl"
| "render_shapes (shape # rest) gl = render_shapes rest (Shape_render shape gl)"

definition WebGlApp_render ::
  "js_env \<Rightarrow> WebGlApp \<Rightarrow> gl_state \<Rightarrow> int \<Rightarrow> int \<Rightarrow> gl_state" where
  "WebGlApp_render env this gl canvas_width canvas_height =
     (let gl = setViewport gl canvas_width canvas_height;
          gl = clearCanvas env gl
      in render_shapes (shapes this) gl)"

section \<open>Observing the device\<close>

text \<open>The calls a piece of code made: what the log gained between two device states.\<close>

definition emitted :: "gl_state \<Rightarrow> gl_state \<Rightarrow> gl_call list" where
  "emitted before after = drop (length (calls before)) (calls after)"

text \<open>The calls that make up a frame at the level of the scene: viewport, clear, draw.\<close>

fun frame_level :: "gl_call \<Rightarrow> bool" where
  "frame_level (Viewport x y w h) = True"
| "frame_level (ClearColor r g b a) = True"
| "frame_level (Clear m) = True"
| "frame_level (DrawElements m n t off) = True"
| "frame_level other = False"

fun creates :: "gl_call \<Rightarrow> bool" where
  "creates (CreateBuffer k) = True"
| "creates (CreateVertexArray k) = True"
| "creates other = False"

fun deletes :: "gl_call \<Rightarrow> bool" where
  "deletes (DeleteBuffer b) = True"
| "deletes (DeleteVertexArray v) = True"
| "deletes other = False"

text \<open>
  A device object is released by \<open>deleteBuffer\<close> or \<open>deleteVertexArray\<close>, the only calls
  of the device that give a buffer or a vertex array object back.
\<close>

definition released :: "gl_state \<Rightarrow> nat \<Rightarrow> bool" where
  "released gl k =
     (DeleteBuffer (Some k) \<in> set (calls gl) \<or>
      DeleteVertexArray (Some k) \<in> set (calls gl))"

definition unbound :: "gl_state \<Rightarrow> bool" where
  "unbound gl =
     (vertex_array_binding gl = None \<and> array_buffer_binding gl = None \<and>
      element_array_buffer_binding gl = None)"

text \<open>
  Pairing of binds in a sequence of calls. The three flags say whether a vertex array
  object, an \<open>ARRAY_BUFFER\<close> and an \<open>ELEMENT_ARRAY_BUFFER\<close> bound by the sequence are
  still bound. A bind of an object needs its slot closed, a bind of null needs it
  open, and at the end every slot is closed again.
\<close>

fun track_bind :: "bool \<times> bool \<times> bool \<Rightarrow> gl_call \<Rightarrow> (bool \<times> bool \<times> bool) option" where
  "track_bind (v, a, e) (BindVertexArray (Some k)) = (if v then None else Some (True, a, e))"
| "track_bind (v, a, e) (BindVertexArray None) = (if v then Some (False, a, e) else None)"
| "track_bind (v, a, e) (BindBuffer ARRAY_BUFFER (Some k)) =
     (if a then None else Some (v, True, e))"
| "track_bind (v, a, e) (BindBuffer ARRAY_BUFFER None) =
     (if a then Some (v, False, e) else None)"
| "track_bind (v, a, e) (BindBuffer ELEMENT_ARRAY_BUFFER (Some k)) =
     (if e then None else Some (v, a, True))"
| "track_bind (v, a, e) (BindBuffer ELEMENT_ARRAY_BUFFER None) =
     (if e then Some (v, a, False) else None)"
| "track_bind (v, a, e) other = Some (v, a, e)"

fun binds_paired_from :: "bool \<times> bool \<times> bool \<Rightarrow> gl_call list \<Rightarrow> bool" where
  "binds_paired_from s [] = (s = (False, False, False))"
| "binds_paired_from s (c # cs) =
     (case track_bind s c of None \<Rightarrow> False | Some s' \<Rightarrow> binds_paired_from s' cs)"

definition binds_paired :: "gl_call list \<Rightarrow> bool" where
  "binds_paired cs = binds_paired_from (False, False, False) cs"

text \<open>The calls of one \<open>Shape.render\<close>, given the device's table of uniform locations.\<close>

definition Shape_render_calls :: "(nat \<Rightarrow> string \<Rightarrow> nat option) \<Rightarrow> Shape \<Rightarrow> gl_call list" where
  "Shape_render_calls locs this =
     [BindVertexArray (vertex_array_object this),
      BindBuffer ELEMENT_ARRAY_BUFFER (index_buffer this),
      GetUniformLocation (program (shader this)) ''u_color'',
      Uniform3fv (locs (program (shader this)) ''u_color'') (color this),
      DrawElements (draw_mode this) (num_elements this) UNSIGNED_SHORT 0,
      BindBuffer ELEMENT_ARRAY_BUFFER None,
      BindVertexArray None]"

text \<open>
  The calls of one \<open>new Shape(...)\<close>, given the device's table of attribute locations
  and the number \<open>k\<close> of the next device object.
\<close>

definition Shape_constructor_calls ::
  "(nat \<Rightarrow> string \<Rightarrow> int) \<Rightarrow> nat \<Rightarrow> Shader \<Rightarrow> double list \<Rightarrow> int list \<Rightarrow> gl_call list"
  where
  "Shape_constructor_calls locs k sh vs is =
     [CreateBuffer k,
      BindBuffer ARRAY_BUFFER (Some k),
      BufferData ARRAY_BUFFER (Float32Array (map to_float32 vs)) STATIC_DRAW,
      BindBuffer ARRAY_BUFFER None,
      CreateBuffer (k + 1),
      BindBuffer ELEMENT_ARRAY_BUFFER (Some (k + 1)),
      BufferData ELEMENT_ARRAY_BUFFER (Uint16Array (map word_of_int is)) STATIC_DRAW,
      BindBuffer ELEMENT_ARRAY_BUFFER None,
      CreateVertexArray (k + 2),
      BindVertexArray (Some (k + 2)),
      GetAttribLocation (program sh) ''a_position'',
      EnableVertexAttribArray (locs (program sh) ''a_position''),
      BindBuffer ARRAY_BUFFER (Some k),
      VertexAttribPointer (locs (program sh) ''a_position'') 2 FLOAT False 0 0,
      BindBuffer ARRAY_BUFFER None,
      BindVertexArray None]"

text \<open>The viewport call and the clear that open every frame.\<close>

definition frame_header :: "js_env \<Rightarrow> int \<Rightarrow> int \<Rightarrow> gl_call list" where
  "frame_header env width height =
     [Viewport 0 0 width height,
      ClearColor (fst (hex2rgb env ''#022851'')) (fst (snd (hex2rgb env ''#022851'')))
        (snd (snd (hex2rgb env ''#022851''))) (dbl 1),
      Clear COLOR_BUFFER_BIT]"

text \<open>The index values the device holds for a shape: the contents of its index buffer.\<close>

definition uploaded_indices :: "gl_state \<Rightarrow> Shape \<Rightarrow> int list option" where
  "uploaded_indices gl this =
     (case index_buffer this of
        None \<Rightarrow> None
      | Some b \<Rightarrow>
          (case buffer_contents gl b of
             Some (Uint16Array ws) \<Rightarrow> Some (map uint ws)
           | Some (Float32Array xs) \<Rightarrow> None
           | None \<Rightarrow> None))"

section \<open>Properties of the data model\<close>

text \<open>
  The invariant of the data model: every index is below half the number of vertex
  scalars, and the element count does not exceed the number of indices.
\<close>

definition shape_invariant :: "Shape \<Rightarrow> bool" where
  "shape_invariant this =
     (list_all (\<lambda>i. 2 * i < int (length (vertices this))) (indices this) \<and>
      num_elements this \<le> int (length (indices this)))"





section \<open>Outcome of a construction\<close>

text \<open>
  What evaluating \<open>new Shape(...)\<close> gives its caller: the error thrown, or the object
  and the device after the constructor has run. The constructor and the three methods
  it calls contain no \<open>throw\<close> and no test of their arguments, and the device reports
  its own errors through \<open>getError\<close>, not by exceptions: the expression always
  completes normally.
\<close>

datatype construction_error = InvalidGeometry | ResourceCreationFailure

definition new_Shape ::
  "gl_state \<Rightarrow> Shader \<Rightarrow> double list \<Rightarrow> int list \<Rightarrow> rgb \<Rightarrow> gl_mode \<Rightarrow> int
     \<Rightarrow> construction_error + Shape \<times> gl_state" where
  "new_Shape gl sh vs is c mode n = Inr (Shape_constructor gl sh vs is c mode n)"

section \<open>Sequences of calls on a WebGlApp\<close>

text \<open>
  A client of the class calls its methods one after the other on one scene and one
  device.
\<close>

datatype app_call = AddTriangle Shader "double \<times> double" double | ClearShapes | Render int int

fun run_call ::
  "js_env \<Rightarrow> WebGlApp \<times> gl_state \<Rightarrow> app_call \<Rightarrow> WebGlApp \<times> gl_state" where
  "run_call env (app, gl) (AddTriangle sh position sideLength) =
     addTriangle env app gl sh position sideLength"
| "run_call env (app, gl) ClearShapes = (clearShapes app, gl)"
| "run_call env (app, gl) (Render width height) =
     (app, WebGlApp_render env app gl width height)"

definition run_calls ::
  "js_env \<Rightarrow> WebGlApp \<times> gl_state \<Rightarrow> app_call list \<Rightarrow> WebGlApp \<times> gl_state" where
  "run_calls env st cs = foldl (run_call env) st cs"

section \<open>A concrete device, shader and environment\<close>

definition test_gl :: gl_state where
  "test_gl =
     \<lparr>calls = [], next_object = 0, vertex_array_binding = None,
      array_buffer_binding = None, element_array_buffer_binding = None,
      buffer_contents = (\<lambda>k. None), attrib_locations = (\<lambda>p n. 0),
      uniform_locations = (\<lambda>p n. Some 0)\<rparr>"

definition test_shader :: Shader where
  "test_shader = \<lparr>program = 7\<rparr>"

text \<open>
  An environment with the values of a common engine: the colour components are the
  doubles nearest to 2/255, 40/255, 81/255 and to 1, 191/255, 0; \<open>deg2rad\<close> of 30 is
  0.5235987755982988, its cosine 0.8660254037844387 and its sine 0.49999999999999994.
\<close>

definition test_env :: js_env where
  "test_env =
     \<lparr>hex2rgb = (\<lambda>s. if s = ''#022851''
          then (Finite 282578800148737 (- 55), Finite 1412894000743685 (- 53),
                Finite 1430555175752981 (- 52))
          else (Finite 1 0, Finite 843321106693887 (- 50), Finite 0 0)),
      deg2rad = (\<lambda>d. Finite 4716158501352293 (- 53)),
      Math_cos = (\<lambda>x. Finite 7800463371553963 (- 53)),
      Math_sin = (\<lambda>x. Finite 9007199254740991 (- 54))\<rparr>"


section \<open>What the operations do to the device\<close>

lemmas gl_defs = gl_createBuffer_def gl_createVertexArray_def gl_bindBuffer_def
  gl_bindVertexArray_def bound_buffer_def gl_bufferData_def gl_getAttribLocation_def
  gl_enableVertexAttribArray_def gl_vertexAttribPointer_def gl_getUniformLocation_def
  gl_uniform3fv_def gl_drawElements_def gl_viewport_def gl_clearColor_def gl_clear_def

lemma Shape_render_effect:
  "Shape_render this gl =
     gl\<lparr>calls := calls gl @ Shape_render_calls (uniform_locations gl) this,
        vertex_array_binding := None, element_array_buffer_binding := None\<rparr>"
  by (simp add: Shape_render_def Shape_render_calls_def gl_defs)

lemma render_shapes_calls:
  "calls (render_shapes ss gl) =
     calls gl @ concat (map (Shape_render_calls (uniform_locations gl)) ss)"
  by (induction ss arbitrary: gl) (simp_all add: Shape_render_effect)

lemma render_shapes_uniform_locations:
  "uniform_locations (render_shapes ss gl) = uniform_locations gl"
  by (induction ss arbitrary: gl) (simp_all add: Shape_render_effect)

lemma Shape_constructor_effect:
  "Shape_constructor gl sh vs is c mode n =
     (\<lparr>shader = sh, vertices = vs, vertices_buffer = Some (next_object gl), indices = is,
       index_buffer = Some (next_object gl + 1), color = c, draw_mode = mode,
       num_components = 2, num_elements = n,
       vertex_array_object = Some (next_object gl + 2)\<rparr>,
      gl\<lparr>calls := calls gl @
           Shape_constructor_calls (attrib_locations gl) (next_object gl) sh vs is,
         next_object := next_object gl + 3,
         vertex_array_binding := None,
         array_buffer_binding := None,
         element_array_buffer_binding := None,
         buffer_contents := (buffer_contents gl)
           (next_object gl := Some (Float32Array (map to_float32 vs)),
            next_object gl + 1 := Some (Uint16Array (map word_of_int is)))\<rparr>)"
  by (simp add: Shape_constructor_def createVBO_def createIBO_def createVAO_def gl_defs
      blank_Shape_def new_Float32Array_def new_Uint16Array_def Shape_constructor_calls_def)

lemma WebGlApp_render_calls:
  "calls (WebGlApp_render env app gl w ht) =
     calls gl @ frame_header env w ht @
       concat (map (Shape_render_calls (uniform_locations gl)) (shapes app))"
  by (simp add: WebGlApp_render_def setViewport_def clearCanvas_def gl_defs split_def
      Let_def render_shapes_calls frame_header_def)

lemma WebGlApp_render_uniform_locations:
  "uniform_locations (WebGlApp_render env app gl w ht) = uniform_locations gl"
  by (simp add: WebGlApp_render_def setViewport_def clearCanvas_def gl_defs split_def
      Let_def render_shapes_uniform_locations)

lemma emitted_append: "calls gl' = calls gl @ cs \<Longrightarrow> emitted gl gl' = cs"
  by (simp add: emitted_def)

lemma filter_frame_level_render:
  "filter frame_level (concat (map (Shape_render_calls locs) ss)) =
     map (\<lambda>s. DrawElements (draw_mode s) (num_elements s) UNSIGNED_SHORT 0) ss"
  by (induction ss) (simp_all add: Shape_render_calls_def)

lemma filter_frame_level_header:
  "filter frame_level (frame_header env w ht) = frame_header env w ht"
  by (simp add: frame_header_def)

lemma addTriangle_effect:
  "addTriangle env app gl sh p s =
     (app\<lparr>shapes := shapes app @ [fst (Triangle_constructor env gl sh p (hex2rgb env ''#FFBF00'') s)]\<rparr>,
      snd (Triangle_constructor env gl sh p (hex2rgb env ''#FFBF00'') s))"
  by (simp add: addTriangle_def split_def Let_def)

section \<open>Order properties of the rounded operations\<close>

declare normal.simps [simp del]








lemma normal_finite: "is_finite (normal m e)"
  by (induction m e rule: normal.induct) (subst normal.simps, simp)























section \<open>The arithmetic at some inputs\<close>

text \<open>
  0.1 + 0.2 is 0.30000000000000004; the largest power of two doubled overflows; three
  halves of the least positive double round up to two of them and one half rounds
  down to zero; 0.1 stored in a \<open>Float32Array\<close> is 0.10000000149011612; the sum of the
  two infinities is NaN.
\<close>

lemma double_arithmetic_examples:
  "dadd (Finite 3602879701896397 (- 55)) (Finite 3602879701896397 (- 54)) =
     Finite 1351079888211149 (- 52)"
  "dmul (Finite 1 1023) (Finite 1 1) = PosInf"
  "dmul (Finite 3 (- 1074)) (Finite 1 (- 1)) = Finite 1 (- 1073)"
  "dmul (Finite 1 (- 1074)) (Finite 1 (- 1)) = Finite 0 0"
  "to_float32 (Finite 3602879701896397 (- 55)) = Finite 13421773 (- 27)"
  "dadd PosInf NegInf = NaN"
  by code_simp+

section \<open>The triangle generator at some inputs\<close>

lemma Triangle_vertices_at_origin_2:
  "Triangle_vertices test_env (Finite 0 0, Finite 0 0) (Finite 1 1) =
     [Finite 0 0, Finite (- 1) 1,
      Finite 7800463371553963 (- 52), Finite 9007199254740991 (- 53),
      Finite (- 7800463371553963) (- 52), Finite 9007199254740991 (- 53)]"
  by code_simp

lemma Triangle_vertices_at_5_5_4:
  "Triangle_vertices test_env (Finite 5 0, Finite 5 0) (Finite 1 2) =
     [Finite 5 0, Finite 1 0,
      Finite 4764865609995051 (- 49), Finite 7 0,
      Finite 3458535696872277 (- 51), Finite 7 0]"
  by code_simp






lemma dbl_values:
  "dbl 0 = Finite 0 0" "dbl 1 = Finite 1 0" "dbl 2 = Finite 1 1" "dbl 4 = Finite 1 2"
  "dbl 5 = Finite 5 0"
  by code_simp+

section \<open>Frames\<close>

text \<open>
  C1. For every device, width, height and scene, \<open>WebGlApp.render\<close> makes exactly
  these calls, in this order: the viewport call for (0, 0, width, height), the clear
  to the fixed background colour, then the calls of \<open>Shape.render\<close> for each stored
  shape in insertion order, which hold one draw per shape. With no shape stored the
  frame is the viewport call and the clear alone. After \<open>addTriangle\<close> at (0, 0) with
  side length 1 on a new scene, \<open>render(800, 600)\<close> makes one viewport call
  (0, 0, 800, 600), one clear and one draw of \<open>TRIANGLES\<close> with 3 elements.
\<close>

theorem render_emits_one_frame:
  "emitted gl (WebGlApp_render env app gl w ht) =
     frame_header env w ht @ concat (map (Shape_render_calls (uniform_locations gl)) (shapes app))
   \<and> filter frame_level (emitted gl (WebGlApp_render env app gl w ht)) =
       frame_header env w ht @
       map (\<lambda>s. DrawElements (draw_mode s) (num_elements s) UNSIGNED_SHORT 0) (shapes app)
   \<and> (shapes app = [] \<longrightarrow>
        emitted gl (WebGlApp_render env app gl w ht) =
          [Viewport 0 0 w ht,
           ClearColor (fst (hex2rgb env ''#022851'')) (fst (snd (hex2rgb env ''#022851'')))
             (snd (snd (hex2rgb env ''#022851''))) (dbl 1),
           Clear COLOR_BUFFER_BIT])
   \<and> filter frame_level
        (emitted (snd (addTriangle env WebGlApp_constructor gl0 sh (dbl 0, dbl 0) (dbl 1)))
           (WebGlApp_render env (fst (addTriangle env WebGlApp_constructor gl0 sh (dbl 0, dbl 0) (dbl 1)))
              (snd (addTriangle env WebGlApp_constructor gl0 sh (dbl 0, dbl 0) (dbl 1))) 800 600)) =
       [Viewport 0 0 800 600,
        ClearColor (fst (hex2rgb env ''#022851'')) (fst (snd (hex2rgb env ''#022851'')))
          (snd (snd (hex2rgb env ''#022851''))) (dbl 1),
        Clear COLOR_BUFFER_BIT,
        DrawElements TRIANGLES 3 UNSIGNED_SHORT 0]"
proof (intro conjI)
  show full: "emitted gl (WebGlApp_render env app gl w ht) =
     frame_header env w ht @ concat (map (Shape_render_calls (uniform_locations gl)) (shapes app))"
    by (rule emitted_append) (simp add: WebGlApp_render_calls)
  show "filter frame_level (emitted gl (WebGlApp_render env app gl w ht)) =
       frame_header env w ht @
       map (\<lambda>s. DrawElements (draw_mode s) (num_elements s) UNSIGNED_SHORT 0) (shapes app)"
    by (simp add: full filter_frame_level_render filter_frame_level_header)
  show "shapes app = [] \<longrightarrow>
        emitted gl (WebGlApp_render env app gl w ht) =
          [Viewport 0 0 w ht,
           ClearColor (fst (hex2rgb env ''#022851'')) (fst (snd (hex2rgb env ''#022851'')))
             (snd (snd (hex2rgb env ''#022851''))) (dbl 1),
           Clear COLOR_BUFFER_BIT]"
    by (simp add: full frame_header_def)
  have em: "emitted g (WebGlApp_render env a g 800 600) =
     frame_header env 800 600 @ concat (map (Shape_render_calls (uniform_locations g)) (shapes a))"
    for g a
    by (rule emitted_append) (simp add: WebGlApp_render_calls)
  show "filter frame_level
        (emitted (snd (addTriangle env WebGlApp_constructor gl0 sh (dbl 0, dbl 0) (dbl 1)))
           (WebGlApp_render env (fst (addTriangle env WebGlApp_constructor gl0 sh (dbl 0, dbl 0) (dbl 1)))
              (snd (addTriangle env WebGlApp_constructor gl0 sh (dbl 0, dbl 0) (dbl 1))) 800 600)) =
       [Viewport 0 0 800 600,
        ClearColor (fst (hex2rgb env ''#022851'')) (fst (snd (hex2rgb env ''#022851'')))
          (snd (snd (hex2rgb env ''#022851''))) (dbl 1),
        Clear COLOR_BUFFER_BIT,
        DrawElements TRIANGLES 3 UNSIGNED_SHORT 0]"
    by (simp add: em filter_frame_level_render filter_frame_level_header addTriangle_effect
        WebGlApp_constructor_def Triangle_constructor_def Shape_constructor_effect
        Triangle_indices_def frame_header_def Shape_render_calls_def)
qed

theorem render_emits_one_frame_witness:
  "shapes WebGlApp_constructor = [] \<and>
   emitted test_gl (WebGlApp_render test_env WebGlApp_constructor test_gl 640 480) =
     [Viewport 0 0 640 480, ClearColor (Finite 282578800148737 (- 55)) (Finite 1412894000743685 (- 53))
        (Finite 1430555175752981 (- 52)) (dbl 1),
      Clear COLOR_BUFFER_BIT]"
  using render_emits_one_frame
    [of test_gl test_env WebGlApp_constructor 640 480 test_gl test_shader]
  by (simp add: WebGlApp_constructor_def test_env_def frame_header_def)

section \<open>The scene as an ordered list of shapes\<close>

lemma run_calls_Nil: "run_calls env st [] = st"
  by (simp add: run_calls_def)

lemma run_calls_Cons: "run_calls env st (c # cs) = run_calls env (run_call env st c) cs"
  by (simp add: run_calls_def)

lemma Triangle_constructor_fields:
  "vertices (fst (Triangle_constructor env gl sh p c s)) = Triangle_vertices env p s"
  "indices (fst (Triangle_constructor env gl sh p c s)) = [0, 1, 2]"
  "num_elements (fst (Triangle_constructor env gl sh p c s)) = 3"
  "shader (fst (Triangle_constructor env gl sh p c s)) = sh"
  "color (fst (Triangle_constructor env gl sh p c s)) = c"
  "draw_mode (fst (Triangle_constructor env gl sh p c s)) = TRIANGLES"
  by (simp_all add: Triangle_constructor_def Shape_constructor_effect Triangle_indices_def)

lemma run_adds_shapes:
  "map (\<lambda>t. (shader t, vertices t)) (shapes (fst (run_calls env (app, gl)
      (map (\<lambda>a. AddTriangle (fst a) (fst (snd a)) (snd (snd a))) as)))) =
   map (\<lambda>t. (shader t, vertices t)) (shapes app) @
   map (\<lambda>a. (fst a, Triangle_vertices env (fst (snd a)) (snd (snd a)))) as"
proof (induction as arbitrary: app gl)
  case Nil
  show ?case by (simp add: run_calls_Nil)
next
  case (Cons a as)
  show ?case
    by (simp add: run_calls_Cons addTriangle_effect Cons.IH Triangle_constructor_fields)
qed

text \<open>
  C4. \<open>addTriangle\<close> only appends: from a scene with N shapes it gives N + 1 shapes,
  the new one last and the earlier ones where they were, so that N calls on a new
  scene give N shapes in call order (shader and vertex data of the i-th shape are
  those of the i-th call). \<open>render\<close> goes through the shapes in that order.
  \<open>clearShapes\<close> takes a scene with any number of shapes to the one with none.
\<close>

theorem addTriangle_appends:
  "shapes (fst (addTriangle env app gl sh p s)) =
     shapes app @ [fst (Triangle_constructor env gl sh p (hex2rgb env ''#FFBF00'') s)]
   \<and> length (shapes (fst (addTriangle env app gl sh p s))) = length (shapes app) + 1
   \<and> take (length (shapes app)) (shapes (fst (addTriangle env app gl sh p s))) = shapes app
   \<and> length (shapes (fst (run_calls env (WebGlApp_constructor, gl)
        (map (\<lambda>a. AddTriangle (fst a) (fst (snd a)) (snd (snd a))) as)))) = length as
   \<and> map (\<lambda>t. (shader t, vertices t)) (shapes (fst (run_calls env (WebGlApp_constructor, gl)
        (map (\<lambda>a. AddTriangle (fst a) (fst (snd a)) (snd (snd a))) as)))) =
       map (\<lambda>a. (fst a, Triangle_vertices env (fst (snd a)) (snd (snd a)))) as
   \<and> emitted gl (WebGlApp_render env app gl w ht) =
       frame_header env w ht @
       concat (map (Shape_render_calls (uniform_locations gl)) (shapes app))
   \<and> shapes (clearShapes app) = []
   \<and> length (shapes (clearShapes app)) = 0"
proof (intro conjI)
  show "shapes (fst (addTriangle env app gl sh p s)) =
     shapes app @ [fst (Triangle_constructor env gl sh p (hex2rgb env ''#FFBF00'') s)]"
    by (simp add: addTriangle_effect)
  show "length (shapes (fst (addTriangle env app gl sh p s))) = length (shapes app) + 1"
    by (simp add: addTriangle_effect)
  show "take (length (shapes app)) (shapes (fst (addTriangle env app gl sh p s))) = shapes app"
    by (simp add: addTriangle_effect)
  have all: "map (\<lambda>t. (shader t, vertices t)) (shapes (fst (run_calls env (WebGlApp_constructor, gl)
        (map (\<lambda>a. AddTriangle (fst a) (fst (snd a)) (snd (snd a))) as)))) =
       map (\<lambda>a. (fst a, Triangle_vertices env (fst (snd a)) (snd (snd a)))) as"
    by (simp add: run_adds_shapes WebGlApp_constructor_def)
  show "map (\<lambda>t. (shader t, vertices t)) (shapes (fst (run_calls env (WebGlApp_constructor, gl)
        (map (\<lambda>a. AddTriangle (fst a) (fst (snd a)) (snd (snd a))) as)))) =
       map (\<lambda>a. (fst a, Triangle_vertices env (fst (snd a)) (snd (snd a)))) as"
    by (rule all)
  from arg_cong [OF all, of length]
  show "length (shapes (fst (run_calls env (WebGlApp_constructor, gl)
        (map (\<lambda>a. AddTriangle (fst a) (fst (snd a)) (snd (snd a))) as)))) = length as"
    by simp
  show "emitted gl (WebGlApp_render env app gl w ht) =
       frame_header env w ht @
       concat (map (Shape_render_calls (uniform_locations gl)) (shapes app))"
    by (rule emitted_append) (simp add: WebGlApp_render_calls)
  show "shapes (clearShapes app) = []"
    by (simp add: clearShapes_def)
  show "length (shapes (clearShapes app)) = 0"
    by (simp add: clearShapes_def)
qed

theorem addTriangle_appends_witness:
  "map (\<lambda>t. (shader t, vertices t))
     (shapes (fst (run_calls test_env (WebGlApp_constructor, test_gl)
        [AddTriangle test_shader (Finite 0 0, Finite 0 0) (Finite 1 1),
         AddTriangle test_shader (Finite 5 0, Finite 5 0) (Finite 1 2)]))) =
     [(test_shader,
       [Finite 0 0, Finite (- 1) 1,
        Finite 7800463371553963 (- 52), Finite 9007199254740991 (- 53),
        Finite (- 7800463371553963) (- 52), Finite 9007199254740991 (- 53)]),
      (test_shader,
       [Finite 5 0, Finite 1 0,
        Finite 4764865609995051 (- 49), Finite 7 0,
        Finite 3458535696872277 (- 51), Finite 7 0])]"
  using addTriangle_appends [of test_env WebGlApp_constructor test_gl test_shader
      "(Finite 0 0, Finite 0 0)" "Finite 1 1"
      "[(test_shader, (Finite 0 0, Finite 0 0), Finite 1 1),
        (test_shader, (Finite 5 0, Finite 5 0), Finite 1 2)]" 0 0]
  by (simp add: Triangle_vertices_at_origin_2 Triangle_vertices_at_5_5_4)

text \<open>
  C8. Rendering is deterministic over an unchanged scene: two calls of
  \<open>WebGlApp.render\<close> in a row, with the same arguments, make the same device calls
  in the same order: the same binds, uniform uploads, draws and unbinds.
\<close>

theorem render_twice_same_calls:
  "emitted (WebGlApp_render env app gl w ht)
     (WebGlApp_render env app (WebGlApp_render env app gl w ht) w ht) =
   emitted gl (WebGlApp_render env app gl w ht)
   \<and> emitted gl (WebGlApp_render env app gl w ht) =
       frame_header env w ht @
       concat (map (Shape_render_calls (uniform_locations gl)) (shapes app))"
proof -
  have em: "emitted g (WebGlApp_render env app g w ht) =
     frame_header env w ht @ concat (map (Shape_render_calls (uniform_locations g)) (shapes app))"
    for g
    by (rule emitted_append) (simp add: WebGlApp_render_calls)
  show ?thesis
    by (simp add: em WebGlApp_render_uniform_locations)
qed

theorem render_twice_same_calls_witness:
  "emitted (WebGlApp_render test_env WebGlApp_constructor test_gl 800 600)
     (WebGlApp_render test_env WebGlApp_constructor
        (WebGlApp_render test_env WebGlApp_constructor test_gl 800 600) 800 600) =
     [Viewport 0 0 800 600, ClearColor (Finite 282578800148737 (- 55)) (Finite 1412894000743685 (- 53))
        (Finite 1430555175752981 (- 52)) (dbl 1),
      Clear COLOR_BUFFER_BIT]"
  using render_twice_same_calls [of test_env WebGlApp_constructor test_gl 800 600]
  by (simp add: frame_header_def test_env_def WebGlApp_constructor_def)

section \<open>Binding discipline\<close>

lemma createVBO_effect:
  "createVBO this gl =
     (this\<lparr>vertices_buffer := Some (next_object gl)\<rparr>,
      gl\<lparr>calls := calls gl @
           [CreateBuffer (next_object gl),
            BindBuffer ARRAY_BUFFER (Some (next_object gl)),
            BufferData ARRAY_BUFFER (Float32Array (map to_float32 (vertices this))) STATIC_DRAW,
            BindBuffer ARRAY_BUFFER None],
         next_object := Suc (next_object gl),
         array_buffer_binding := None,
         buffer_contents := (buffer_contents gl)
           (next_object gl := Some (Float32Array (map to_float32 (vertices this))))\<rparr>)"
  by (simp add: createVBO_def gl_defs new_Float32Array_def)

lemma createIBO_effect:
  "createIBO this gl =
     (this\<lparr>index_buffer := Some (next_object gl)\<rparr>,
      gl\<lparr>calls := calls gl @
           [CreateBuffer (next_object gl),
            BindBuffer ELEMENT_ARRAY_BUFFER (Some (next_object gl)),
            BufferData ELEMENT_ARRAY_BUFFER (Uint16Array (map word_of_int (indices this)))
              STATIC_DRAW,
            BindBuffer ELEMENT_ARRAY_BUFFER None],
         next_object := Suc (next_object gl),
         element_array_buffer_binding := None,
         buffer_contents := (buffer_contents gl)
           (next_object gl := Some (Uint16Array (map word_of_int (indices this))))\<rparr>)"
  by (simp add: createIBO_def gl_defs new_Uint16Array_def)

lemma createVAO_effect:
  "createVAO this gl sh =
     (this\<lparr>vertex_array_object := Some (next_object gl)\<rparr>,
      gl\<lparr>calls := calls gl @
           [CreateVertexArray (next_object gl),
            BindVertexArray (Some (next_object gl)),
            GetAttribLocation (program sh) ''a_position'',
            EnableVertexAttribArray (attrib_locations gl (program sh) ''a_position''),
            BindBuffer ARRAY_BUFFER (vertices_buffer this),
            VertexAttribPointer (attrib_locations gl (program sh) ''a_position'')
              (num_components this) FLOAT False 0 0,
            BindBuffer ARRAY_BUFFER None,
            BindVertexArray None],
         next_object := Suc (next_object gl),
         vertex_array_binding := None,
         array_buffer_binding := None\<rparr>)"
  by (simp add: createVAO_def gl_defs)

lemma render_shapes_bindings:
  "unbound gl \<Longrightarrow> unbound (render_shapes ss gl)"
  by (induction ss arbitrary: gl) (simp_all add: Shape_render_effect unbound_def)

text \<open>
  C7. Every operation that binds device state leaves the device unbound when it
  returns. \<open>Shape.render\<close> ends with no vertex array object and no index buffer bound
  and never touches the \<open>ARRAY_BUFFER\<close> binding; each of \<open>createVBO\<close>, \<open>createIBO\<close> and
  \<open>createVAO\<close> ends with the targets it bound set back to null and leaves the others
  alone; after the constructor nothing is bound. In the calls of each of them every
  bind of an object is followed by the bind of null to the same target before the
  call returns. A device that is unbound on entry is unbound after a whole frame.
\<close>

theorem binds_are_paired:
  "vertex_array_binding (Shape_render this gl) = None
   \<and> element_array_buffer_binding (Shape_render this gl) = None
   \<and> array_buffer_binding (Shape_render this gl) = array_buffer_binding gl
   \<and> (unbound gl \<longrightarrow> unbound (Shape_render this gl))
   \<and> binds_paired (emitted gl'
        (Shape_render (fst (Shape_constructor gl sh vs is c mode n)) gl'))
   \<and> array_buffer_binding (snd (createVBO this gl)) = None
   \<and> vertex_array_binding (snd (createVBO this gl)) = vertex_array_binding gl
   \<and> element_array_buffer_binding (snd (createVBO this gl)) = element_array_buffer_binding gl
   \<and> binds_paired (emitted gl (snd (createVBO this gl)))
   \<and> element_array_buffer_binding (snd (createIBO this gl)) = None
   \<and> vertex_array_binding (snd (createIBO this gl)) = vertex_array_binding gl
   \<and> array_buffer_binding (snd (createIBO this gl)) = array_buffer_binding gl
   \<and> binds_paired (emitted gl (snd (createIBO this gl)))
   \<and> vertex_array_binding (snd (createVAO this gl sh)) = None
   \<and> array_buffer_binding (snd (createVAO this gl sh)) = None
   \<and> element_array_buffer_binding (snd (createVAO this gl sh)) =
       element_array_buffer_binding gl
   \<and> unbound (snd (Shape_constructor gl sh vs is c mode n))
   \<and> binds_paired (emitted gl (snd (Shape_constructor gl sh vs is c mode n)))
   \<and> (unbound gl \<longrightarrow> unbound (WebGlApp_render env app gl w ht))"
proof (intro conjI)
  show "vertex_array_binding (Shape_render this gl) = None"
    by (simp add: Shape_render_effect)
  show "element_array_buffer_binding (Shape_render this gl) = None"
    by (simp add: Shape_render_effect)
  show "array_buffer_binding (Shape_render this gl) = array_buffer_binding gl"
    by (simp add: Shape_render_effect)
  show "unbound gl \<longrightarrow> unbound (Shape_render this gl)"
    by (simp add: Shape_render_effect unbound_def)
  show "binds_paired (emitted gl'
        (Shape_render (fst (Shape_constructor gl sh vs is c mode n)) gl'))"
    by (simp add: Shape_render_effect Shape_constructor_effect emitted_def binds_paired_def
        Shape_render_calls_def)
  show "array_buffer_binding (snd (createVBO this gl)) = None"
    by (simp add: createVBO_effect)
  show "vertex_array_binding (snd (createVBO this gl)) = vertex_array_binding gl"
    by (simp add: createVBO_effect)
  show "element_array_buffer_binding (snd (createVBO this gl)) =
      element_array_buffer_binding gl"
    by (simp add: createVBO_effect)
  show "binds_paired (emitted gl (snd (createVBO this gl)))"
    by (simp add: createVBO_effect emitted_def binds_paired_def)
  show "element_array_buffer_binding (snd (createIBO this gl)) = None"
    by (simp add: createIBO_effect)
  show "vertex_array_binding (snd (createIBO this gl)) = vertex_array_binding gl"
    by (simp add: createIBO_effect)
  show "array_buffer_binding (snd (createIBO this gl)) = array_buffer_binding gl"
    by (simp add: createIBO_effect)
  show "binds_paired (emitted gl (snd (createIBO this gl)))"
    by (simp add: createIBO_effect emitted_def binds_paired_def)
  show "vertex_array_binding (snd (createVAO this gl sh)) = None"
    by (simp add: createVAO_effect)
  show "array_buffer_binding (snd (createVAO this gl sh)) = None"
    by (simp add: createVAO_effect)
  show "element_array_buffer_binding (snd (createVAO this gl sh)) =
       element_array_buffer_binding gl"
    by (simp add: createVAO_effect)
  show "unbound (snd (Shape_constructor gl sh vs is c mode n))"
    by (simp add: Shape_constructor_effect unbound_def)
  show "binds_paired (emitted gl (snd (Shape_constructor gl sh vs is c mode n)))"
    by (simp add: Shape_constructor_effect emitted_def binds_paired_def
        Shape_constructor_calls_def)
  show "unbound gl \<longrightarrow> unbound (WebGlApp_render env app gl w ht)"
  proof
    assume "unbound gl"
    then have "unbound (clearCanvas env (setViewport gl w ht))"
      by (simp add: unbound_def clearCanvas_def setViewport_def gl_defs split_def Let_def)
    then show "unbound (WebGlApp_render env app gl w ht)"
      by (simp add: WebGlApp_render_def Let_def render_shapes_bindings)
  qed
qed

theorem binds_are_paired_witness:
  "unbound test_gl
   \<and> unbound (Shape_render (fst (Shape_constructor test_gl test_shader [dbl 0, dbl 0, dbl 1, dbl 0, dbl 0, dbl 1]
        [0, 1, 2] (dbl 1, dbl 0, dbl 0) TRIANGLES 3)) test_gl)
   \<and> unbound (WebGlApp_render test_env WebGlApp_constructor test_gl 800 600)"
  using binds_are_paired [of
      "fst (Shape_constructor test_gl test_shader [dbl 0, dbl 0, dbl 1, dbl 0, dbl 0, dbl 1] [0, 1, 2] (dbl 1, dbl 0, dbl 0)
         TRIANGLES 3)"
      test_gl test_gl test_shader "[dbl 0, dbl 0, dbl 1, dbl 0, dbl 0, dbl 1]" "[0, 1, 2]" "(dbl 1, dbl 0, dbl 0)"
      TRIANGLES 3 test_env WebGlApp_constructor 800 600]
  by (simp add: unbound_def test_gl_def)

section \<open>Index data on the device\<close>

lemma uint16_of_int: "uint (word_of_int i :: 16 word) = i mod 65536"
  by (simp add: uint_word_of_int)

lemma mod_fixed_iff: "(i::int) mod 65536 = i \<longleftrightarrow> 0 \<le> i \<and> i < 65536"
proof
  assume "i mod 65536 = i"
  moreover have "0 \<le> i mod 65536" and "i mod 65536 < 65536"
    by simp_all
  ultimately show "0 \<le> i \<and> i < 65536"
    by simp
next
  assume "0 \<le> i \<and> i < 65536"
  then show "i mod 65536 = i"
    by simp
qed

lemma map_mod_fixed_iff:
  "map (\<lambda>i::int. i mod 65536) xs = xs \<longleftrightarrow> list_all (\<lambda>i. 0 \<le> i \<and> i < 65536) xs"
  by (induction xs) (simp_all add: mod_fixed_iff)

lemma uploaded_indices_constructor:
  "uploaded_indices (snd (Shape_constructor gl sh vs is c mode n))
     (fst (Shape_constructor gl sh vs is c mode n)) = Some (map (\<lambda>i. i mod 65536) is)"
  by (simp add: uploaded_indices_def Shape_constructor_effect uint16_of_int comp_def)

text \<open>
  C10. Index data goes to the device as 16-bit unsigned integers and is drawn with
  the element type \<open>UNSIGNED_SHORT\<close>: the index buffer of a constructed shape holds
  each given index reduced modulo \<open>2 ^ 16\<close>. An index of 65536 or more wraps
  around and the construction is not rejected. The values on the device are the
  given indices exactly when every index lies in the range from 0 up to 65535.
\<close>

theorem indices_uploaded_as_uint16:
  "BufferData ELEMENT_ARRAY_BUFFER (Uint16Array (map word_of_int ixs)) STATIC_DRAW
     \<in> set (emitted gl (snd (Shape_constructor gl sh vs ixs c mode n)))
   \<and> uploaded_indices (snd (Shape_constructor gl sh vs ixs c mode n))
        (fst (Shape_constructor gl sh vs ixs c mode n)) = Some (map (\<lambda>i. i mod 2 ^ 16) ixs)
   \<and> new_Shape gl sh vs ixs c mode n = Inr (Shape_constructor gl sh vs ixs c mode n)
   \<and> DrawElements (draw_mode this) (num_elements this) UNSIGNED_SHORT 0
        \<in> set (emitted gl' (Shape_render this gl'))
   \<and> (uploaded_indices (snd (Shape_constructor gl sh vs ixs c mode n))
         (fst (Shape_constructor gl sh vs ixs c mode n)) = Some ixs
       \<longleftrightarrow> list_all (\<lambda>i. 0 \<le> i \<and> i < 65536) ixs)
   \<and> uploaded_indices (snd (Shape_constructor gl sh vs [0, 65536, 65537] c mode n))
        (fst (Shape_constructor gl sh vs [0, 65536, 65537] c mode n)) = Some [0, 0, 1]"
proof (intro conjI)
  show "BufferData ELEMENT_ARRAY_BUFFER (Uint16Array (map word_of_int ixs)) STATIC_DRAW
     \<in> set (emitted gl (snd (Shape_constructor gl sh vs ixs c mode n)))"
    by (simp add: Shape_constructor_effect emitted_def Shape_constructor_calls_def)
  show "uploaded_indices (snd (Shape_constructor gl sh vs ixs c mode n))
        (fst (Shape_constructor gl sh vs ixs c mode n)) = Some (map (\<lambda>i. i mod 2 ^ 16) ixs)"
    by (simp add: uploaded_indices_constructor)
  show "new_Shape gl sh vs ixs c mode n = Inr (Shape_constructor gl sh vs ixs c mode n)"
    by (simp add: new_Shape_def)
  show "DrawElements (draw_mode this) (num_elements this) UNSIGNED_SHORT 0
        \<in> set (emitted gl' (Shape_render this gl'))"
    by (simp add: Shape_render_effect emitted_def Shape_render_calls_def)
  show "uploaded_indices (snd (Shape_constructor gl sh vs ixs c mode n))
         (fst (Shape_constructor gl sh vs ixs c mode n)) = Some ixs
       \<longleftrightarrow> list_all (\<lambda>i. 0 \<le> i \<and> i < 65536) ixs"
    by (simp add: uploaded_indices_constructor map_mod_fixed_iff)
  show "uploaded_indices (snd (Shape_constructor gl sh vs [0, 65536, 65537] c mode n))
        (fst (Shape_constructor gl sh vs [0, 65536, 65537] c mode n)) = Some [0, 0, 1]"
    by (simp add: uploaded_indices_constructor)
qed

theorem indices_uploaded_as_uint16_witness:
  "uploaded_indices
     (snd (Shape_constructor test_gl test_shader [dbl 0, dbl 0, dbl 1, dbl 0, dbl 0, dbl 1] [0, 1, 70000] (dbl 1, dbl 0, dbl 0)
        TRIANGLES 3))
     (fst (Shape_constructor test_gl test_shader [dbl 0, dbl 0, dbl 1, dbl 0, dbl 0, dbl 1] [0, 1, 70000] (dbl 1, dbl 0, dbl 0)
        TRIANGLES 3)) = Some [0, 1, 4464]
   \<and> \<not> list_all (\<lambda>i. 0 \<le> i \<and> i < 65536) [0, 1, 70000 :: int]
   \<and> list_all (\<lambda>i. 0 \<le> i \<and> i < 65536) [0, 1, 2 :: int]
   \<and> uploaded_indices
     (snd (Shape_constructor test_gl test_shader [dbl 0, dbl 0, dbl 1, dbl 0, dbl 0, dbl 1] [0, 1, 2] (dbl 1, dbl 0, dbl 0)
        TRIANGLES 3))
     (fst (Shape_constructor test_gl test_shader [dbl 0, dbl 0, dbl 1, dbl 0, dbl 0, dbl 1] [0, 1, 2] (dbl 1, dbl 0, dbl 0)
        TRIANGLES 3)) = Some [0, 1, 2]"
  using indices_uploaded_as_uint16 [where gl = test_gl and sh = test_shader
      and vs = "[dbl 0, dbl 0, dbl 1, dbl 0, dbl 0, dbl 1]" and ixs = "[0, 1, 70000]" and c = "(dbl 1, dbl 0, dbl 0)"
      and mode = TRIANGLES and n = 3]
    indices_uploaded_as_uint16 [where gl = test_gl and sh = test_shader
      and vs = "[dbl 0, dbl 0, dbl 1, dbl 0, dbl 0, dbl 1]" and ixs = "[0, 1, 2]" and c = "(dbl 1, dbl 0, dbl 0)"
      and mode = TRIANGLES and n = 3]
  by simp

section \<open>Construction of a shape\<close>

text \<open>
  C5, as the code has it. The Shape constructor does not check its geometry: for
  every input, also with a vertex list of odd length, an empty index list or an
  element count of 0, the construction completes without an error, stores the
  vertices, the indices and the element count as given, and creates exactly three
  device objects: the vertex buffer, the index buffer and the vertex array object.
\<close>

theorem Shape_constructor_never_rejects:
  "new_Shape gl sh vs ixs c mode n = Inr (Shape_constructor gl sh vs ixs c mode n)
   \<and> vertices (fst (Shape_constructor gl sh vs ixs c mode n)) = vs
   \<and> indices (fst (Shape_constructor gl sh vs ixs c mode n)) = ixs
   \<and> num_elements (fst (Shape_constructor gl sh vs ixs c mode n)) = n
   \<and> filter creates (emitted gl (snd (Shape_constructor gl sh vs ixs c mode n))) =
       [CreateBuffer (next_object gl), CreateBuffer (next_object gl + 1),
        CreateVertexArray (next_object gl + 2)]
   \<and> vertices_buffer (fst (Shape_constructor gl sh vs ixs c mode n)) = Some (next_object gl)
   \<and> index_buffer (fst (Shape_constructor gl sh vs ixs c mode n)) = Some (next_object gl + 1)
   \<and> vertex_array_object (fst (Shape_constructor gl sh vs ixs c mode n)) =
       Some (next_object gl + 2)"
  by (simp add: new_Shape_def Shape_constructor_effect emitted_def Shape_constructor_calls_def)

theorem Shape_constructor_never_rejects_witness:
  "new_Shape test_gl test_shader [dbl 0, dbl 0, dbl 1, dbl 0, dbl 0, dbl 1] [0, 1, 2] (dbl 1, dbl 0, dbl 0) TRIANGLES 3 =
     Inr (Shape_constructor test_gl test_shader [dbl 0, dbl 0, dbl 1, dbl 0, dbl 0, dbl 1] [0, 1, 2] (dbl 1, dbl 0, dbl 0)
       TRIANGLES 3)
   \<and> filter creates (emitted test_gl (snd (Shape_constructor test_gl test_shader
         [dbl 0, dbl 0, dbl 1, dbl 0, dbl 0, dbl 1] [0, 1, 2] (dbl 1, dbl 0, dbl 0) TRIANGLES 3))) =
       [CreateBuffer 0, CreateBuffer 1, CreateVertexArray 2]"
  using Shape_constructor_never_rejects [where gl = test_gl and sh = test_shader
      and vs = "[dbl 0, dbl 0, dbl 1, dbl 0, dbl 0, dbl 1]" and ixs = "[0, 1, 2]" and c = "(dbl 1, dbl 0, dbl 0)"
      and mode = TRIANGLES and n = 3]
  by (simp add: test_gl_def)

text \<open>
  C5 as stated asks for an InvalidGeometry error and no device object. Three
  constructions, one with a vertex list of odd length, one with no index and one
  with an element count of 0, each complete and each create three device objects.
\<close>

theorem invalid_geometry_accepted:
  "odd (length [dbl 0])
   \<and> new_Shape test_gl test_shader [dbl 0] [0] (dbl 1, dbl 0, dbl 0) POINTS 1 \<noteq> Inl InvalidGeometry
   \<and> filter creates (emitted test_gl
        (snd (Shape_constructor test_gl test_shader [dbl 0] [0] (dbl 1, dbl 0, dbl 0) POINTS 1))) =
       [CreateBuffer 0, CreateBuffer 1, CreateVertexArray 2]
   \<and> new_Shape test_gl test_shader [dbl 0, dbl 0] [] (dbl 1, dbl 0, dbl 0) POINTS 1 \<noteq> Inl InvalidGeometry
   \<and> filter creates (emitted test_gl
        (snd (Shape_constructor test_gl test_shader [dbl 0, dbl 0] [] (dbl 1, dbl 0, dbl 0) POINTS 1))) =
       [CreateBuffer 0, CreateBuffer 1, CreateVertexArray 2]
   \<and> new_Shape test_gl test_shader [dbl 0, dbl 0] [0] (dbl 1, dbl 0, dbl 0) POINTS 0 \<noteq> Inl InvalidGeometry
   \<and> filter creates (emitted test_gl
        (snd (Shape_constructor test_gl test_shader [dbl 0, dbl 0] [0] (dbl 1, dbl 0, dbl 0) POINTS 0))) =
       [CreateBuffer 0, CreateBuffer 1, CreateVertexArray 2]"
  by (simp add: new_Shape_def Shape_constructor_effect emitted_def Shape_constructor_calls_def
      test_gl_def)

section \<open>Discarding shapes\<close>

lemma filter_deletes_render_calls:
  "filter deletes (concat (map (Shape_render_calls locs) ss)) = []"
  by (induction ss) (simp_all add: Shape_render_calls_def)

lemma Triangle_constructor_calls:
  "calls (snd (Triangle_constructor env gl sh p c s)) =
     calls gl @ Shape_constructor_calls (attrib_locations gl) (next_object gl) sh
       (Triangle_vertices env p s) [0, 1, 2]"
  by (simp add: Triangle_constructor_def Shape_constructor_effect Triangle_indices_def)

lemma run_call_deletes:
  "filter deletes (calls (snd (run_call env st op))) = filter deletes (calls (snd st))"
proof (cases st)
  case (Pair app gl)
  show ?thesis
  proof (cases op)
    case (AddTriangle sh p s)
    then show ?thesis
      by (simp add: Pair addTriangle_effect Triangle_constructor_calls
          Shape_constructor_calls_def)
  next
    case ClearShapes
    then show ?thesis
      by (simp add: Pair)
  next
    case (Render w ht)
    then show ?thesis
      by (simp add: Pair WebGlApp_render_calls frame_header_def filter_deletes_render_calls)
  qed
qed

lemma run_calls_deletes:
  "filter deletes (calls (snd (run_calls env st ops))) = filter deletes (calls (snd st))"
  by (induction ops arbitrary: st) (simp_all add: run_calls_Nil run_calls_Cons run_call_deletes)

lemma released_filter:
  "released gl k \<longleftrightarrow>
     DeleteBuffer (Some k) \<in> set (filter deletes (calls gl)) \<or>
     DeleteVertexArray (Some k) \<in> set (filter deletes (calls gl))"
  by (simp add: released_def)

text \<open>
  C6, as the code has it. \<open>clearShapes\<close> leaves the scene with an empty list of
  shapes. It takes no device and makes no device call, and no operation of the class
  ever calls \<open>deleteBuffer\<close> or \<open>deleteVertexArray\<close>: whatever sequence of operations
  runs, the device objects released afterwards are the ones released before.
\<close>

theorem clearShapes_releases_nothing:
  "shapes (clearShapes app) = []
   \<and> run_call env (app, gl) ClearShapes = (clearShapes app, gl)
   \<and> filter deletes (calls (snd (run_calls env (app, gl) ops))) = filter deletes (calls gl)
   \<and> released (snd (run_calls env (app, gl) ops)) k = released gl k"
proof (intro conjI)
  show "shapes (clearShapes app) = []"
    by (simp add: clearShapes_def)
  show "run_call env (app, gl) ClearShapes = (clearShapes app, gl)"
    by simp
  show "filter deletes (calls (snd (run_calls env (app, gl) ops))) = filter deletes (calls gl)"
    by (simp add: run_calls_deletes)
  show "released (snd (run_calls env (app, gl) ops)) k = released gl k"
    unfolding released_filter by (simp only: run_calls_deletes snd_conv)
qed

theorem clearShapes_releases_nothing_witness:
  "shapes (clearShapes (fst (addTriangle test_env WebGlApp_constructor test_gl test_shader
      (dbl 0, dbl 0) (dbl 1)))) = []
   \<and> released (snd (run_calls test_env (WebGlApp_constructor, test_gl)
        [AddTriangle test_shader (dbl 0, dbl 0) (dbl 1), ClearShapes, Render 800 600])) 0 = False"
  using clearShapes_releases_nothing [where
      app = "fst (addTriangle test_env WebGlApp_constructor test_gl test_shader (dbl 0, dbl 0) (dbl 1))"]
    clearShapes_releases_nothing [where app = WebGlApp_constructor and gl = test_gl
      and env = test_env and k = 0
      and ops = "[AddTriangle test_shader (dbl 0, dbl 0) (dbl 1), ClearShapes, Render 800 600]"]
  by (simp add: released_def test_gl_def)

text \<open>
  C6 as stated asks that clearing releases the handles of every stored shape. After
  one \<open>addTriangle\<close> the scene holds a shape with buffers 0 and 1 and vertex array
  object 2; after \<open>clearShapes\<close> the list is empty and none of the three is released.
\<close>

theorem clearShapes_leaks_handles:
  "map vertices_buffer (shapes (fst (run_calls test_env (WebGlApp_constructor, test_gl)
      [AddTriangle test_shader (dbl 0, dbl 0) (dbl 1)]))) = [Some 0]
   \<and> map index_buffer (shapes (fst (run_calls test_env (WebGlApp_constructor, test_gl)
      [AddTriangle test_shader (dbl 0, dbl 0) (dbl 1)]))) = [Some 1]
   \<and> map vertex_array_object (shapes (fst (run_calls test_env
      (WebGlApp_constructor, test_gl) [AddTriangle test_shader (dbl 0, dbl 0) (dbl 1)]))) = [Some 2]
   \<and> shapes (fst (run_calls test_env (WebGlApp_constructor, test_gl)
      [AddTriangle test_shader (dbl 0, dbl 0) (dbl 1), ClearShapes])) = []
   \<and> \<not> released (snd (run_calls test_env (WebGlApp_constructor, test_gl)
      [AddTriangle test_shader (dbl 0, dbl 0) (dbl 1), ClearShapes])) 0
   \<and> \<not> released (snd (run_calls test_env (WebGlApp_constructor, test_gl)
      [AddTriangle test_shader (dbl 0, dbl 0) (dbl 1), ClearShapes])) 1
   \<and> \<not> released (snd (run_calls test_env (WebGlApp_constructor, test_gl)
      [AddTriangle test_shader (dbl 0, dbl 0) (dbl 1), ClearShapes])) 2
   \<and> filter deletes (calls (snd (run_calls test_env (WebGlApp_constructor, test_gl)
      [AddTriangle test_shader (dbl 0, dbl 0) (dbl 1), ClearShapes]))) = []"
  by (simp add: run_calls_Cons run_calls_Nil addTriangle_effect Triangle_constructor_def
      Shape_constructor_effect Shape_constructor_calls_def released_def test_gl_def
      clearShapes_def WebGlApp_constructor_def)

section \<open>The invariant of the data model\<close>

lemma Triangle_invariant: "shape_invariant (fst (Triangle_constructor env gl sh p c s))"
  by (simp add: shape_invariant_def Triangle_constructor_fields Triangle_vertices_def Let_def)

lemma run_call_invariant:
  "list_all shape_invariant (shapes (fst st)) \<Longrightarrow>
   list_all shape_invariant (shapes (fst (run_call env st op)))"
proof (cases st)
  case (Pair app gl)
  assume "list_all shape_invariant (shapes (fst st))"
  then show ?thesis
    by (cases op) (simp_all add: Pair addTriangle_effect clearShapes_def Triangle_invariant)
qed

lemma run_calls_invariant:
  "list_all shape_invariant (shapes (fst st)) \<Longrightarrow>
   list_all shape_invariant (shapes (fst (run_calls env st ops)))"
  by (induction ops arbitrary: st) (simp_all add: run_calls_Nil run_calls_Cons run_call_invariant)

text \<open>
  C9, as the code has it. Every shape made by the Triangle constructor has the
  indices [0, 1, 2], 6 vertex scalars and the element count 3, and satisfies the
  invariant: each index is below half the number of vertex scalars and the element
  count is at most the number of indices. Every shape of a scene reached from a new
  \<open>WebGlApp\<close> by its operations satisfies it, and the operations keep it, since each
  of them empties the list or leaves the shapes already stored as they were. The
  Shape constructor itself stores the vertices, indices and element count it is
  given.
\<close>

theorem Triangle_shapes_keep_invariant:
  "indices (fst (Triangle_constructor env gl sh p c s)) = [0, 1, 2]
   \<and> length (vertices (fst (Triangle_constructor env gl sh p c s))) = 6
   \<and> num_elements (fst (Triangle_constructor env gl sh p c s)) = 3
   \<and> shape_invariant (fst (Triangle_constructor env gl sh p c s))
   \<and> list_all shape_invariant (shapes (fst (run_calls env (WebGlApp_constructor, gl) ops)))
   \<and> (list_all shape_invariant (shapes app) \<longrightarrow>
        list_all shape_invariant (shapes (fst (run_calls env (app, gl) ops))))
   \<and> (shapes (fst (run_call env (app, gl) op)) = [] \<or>
        take (length (shapes app)) (shapes (fst (run_call env (app, gl) op))) = shapes app)
   \<and> vertices (fst (Shape_constructor gl sh vs ixs c mode n)) = vs
   \<and> indices (fst (Shape_constructor gl sh vs ixs c mode n)) = ixs
   \<and> num_elements (fst (Shape_constructor gl sh vs ixs c mode n)) = n"
proof (intro conjI)
  show "indices (fst (Triangle_constructor env gl sh p c s)) = [0, 1, 2]"
    by (simp add: Triangle_constructor_fields)
  show "length (vertices (fst (Triangle_constructor env gl sh p c s))) = 6"
    by (simp add: Triangle_constructor_fields Triangle_vertices_def Let_def)
  show "num_elements (fst (Triangle_constructor env gl sh p c s)) = 3"
    by (simp add: Triangle_constructor_fields)
  show "shape_invariant (fst (Triangle_constructor env gl sh p c s))"
    by (rule Triangle_invariant)
  show "list_all shape_invariant (shapes (fst (run_calls env (WebGlApp_constructor, gl) ops)))"
    by (rule run_calls_invariant) (simp add: WebGlApp_constructor_def)
  show "list_all shape_invariant (shapes app) \<longrightarrow>
        list_all shape_invariant (shapes (fst (run_calls env (app, gl) ops)))"
    using run_calls_invariant [of "(app, gl)" env ops] by simp
  show "shapes (fst (run_call env (app, gl) op)) = [] \<or>
        take (length (shapes app)) (shapes (fst (run_call env (app, gl) op))) = shapes app"
    by (cases op) (simp_all add: addTriangle_effect clearShapes_def)
  show "vertices (fst (Shape_constructor gl sh vs ixs c mode n)) = vs"
    by (simp add: Shape_constructor_effect)
  show "indices (fst (Shape_constructor gl sh vs ixs c mode n)) = ixs"
    by (simp add: Shape_constructor_effect)
  show "num_elements (fst (Shape_constructor gl sh vs ixs c mode n)) = n"
    by (simp add: Shape_constructor_effect)
qed

theorem Triangle_shapes_keep_invariant_witness:
  "list_all shape_invariant (shapes WebGlApp_constructor)
   \<and> list_all shape_invariant (shapes (fst (run_calls test_env
        (WebGlApp_constructor, test_gl)
        [AddTriangle test_shader (dbl 0, dbl 0) (dbl 1), Render 800 600, AddTriangle test_shader (dbl 1, dbl 1) (dbl 2)])))"
  using Triangle_shapes_keep_invariant [where app = WebGlApp_constructor and gl = test_gl
      and env = test_env
      and ops = "[AddTriangle test_shader (dbl 0, dbl 0) (dbl 1), Render 800 600,
                  AddTriangle test_shader (dbl 1, dbl 1) (dbl 2)]"]
  by (simp add: WebGlApp_constructor_def)

text \<open>
  C9 as stated speaks of every constructed shape. The Shape constructor builds a
  shape whose index 5 refers to no vertex, and one whose element count 9 exceeds
  its single index.
\<close>

theorem Shape_constructor_breaks_invariant:
  "\<not> shape_invariant (fst (Shape_constructor test_gl test_shader [dbl 0, dbl 0] [5] (dbl 1, dbl 0, dbl 0) POINTS 1))
   \<and> \<not> shape_invariant
         (fst (Shape_constructor test_gl test_shader [dbl 0, dbl 0] [0] (dbl 1, dbl 0, dbl 0) POINTS 9))"
  by (simp add: shape_invariant_def Shape_constructor_effect)

section \<open>The triangle generator\<close>











end
